theory Spec2Isabelle
  imports Main "HOL-Library.Word"
begin

section \<open>Addresses, sizes and pointers\<close>

text \<open>
  The header \<^verbatim>\<open>src/sandbox/sandbox.h\<close> works with \<^verbatim>\<open>Address\<close> (an unsigned
  integer of pointer width) and \<^verbatim>\<open>size_t\<close>. The sandbox it lays out (1 TB between two
  32 GB guard regions) only fits a 64-bit address space, so both are 64-bit words:
  \<open>+\<close> and \<open>-\<close> wrap around and \<open>\<le>\<close>, \<open><\<close> compare unsigned, as in C++.
\<close>

type_synonym Address = "64 word"
type_synonym size_t = "64 word"

text \<open>
  Modelled from the spec: the constant \<^verbatim>\<open>kNullAddress\<close> (declared in
  \<^verbatim>\<open>src/common/globals.h\<close>, which is not among the sources). The spec calls it the
  null-equivalent sentinel and reads it as zero (\<^verbatim>\<open>base == size == 0\<close>).
\<close>

definition kNullAddress :: Address where
  "kNullAddress = 0"

text \<open>
  A \<^verbatim>\<open>void*\<close> is a pointer value of its own type; \<^verbatim>\<open>reinterpret_cast\<close> between a
  pointer and an \<^verbatim>\<open>Address\<close> keeps the bit pattern.
\<close>

datatype pointer = Pointer Address

definition nullptr :: pointer where
  "nullptr = Pointer 0"

definition reinterpret_cast_Address :: "pointer \<Rightarrow> Address" where
  "reinterpret_cast_Address p = (case p of Pointer a \<Rightarrow> a)"

definition reinterpret_cast_pointer :: "Address \<Rightarrow> pointer" where
  "reinterpret_cast_pointer a = Pointer a"

text \<open>
  Modelled from the spec: the macro \<^verbatim>\<open>CHECK\<close> (its header is not among the sources).
  The spec says that a violated precondition is signalled immediately and is not
  recovered from: a failed check ends the call with an error and no new state.
\<close>

datatype fatal = CHECK_failed

definition CHECK :: "bool \<Rightarrow> fatal + unit" where
  "CHECK c = (if c then Inr () else Inl CHECK_failed)"

section \<open>The class \<^verbatim>\<open>Sandbox::SandboxedPointerConstants\<close>\<close>

text \<open>
  C++ data members end in an underscore, which Isabelle does not accept at the end of
  a name; every member \<^verbatim>\<open>x_\<close> is the field \<open>x_m\<close> here.
\<close>

record SandboxedPointerConstants =
  empty_backing_store_buffer_m :: Address

text \<open>The default member initialiser: \<^verbatim>\<open>Address empty_backing_store_buffer_ = 0;\<close>\<close>

definition SandboxedPointerConstants_default :: SandboxedPointerConstants where
  "SandboxedPointerConstants_default = \<lparr>empty_backing_store_buffer_m = 0\<rparr>"

definition empty_backing_store_buffer :: "SandboxedPointerConstants \<Rightarrow> Address" where
  "empty_backing_store_buffer c = empty_backing_store_buffer_m c"

definition set_empty_backing_store_buffer ::
    "Address \<Rightarrow> SandboxedPointerConstants \<Rightarrow> SandboxedPointerConstants" where
  "set_empty_backing_store_buffer val c = c\<lparr>empty_backing_store_buffer_m := val\<rparr>"

definition Reset :: "SandboxedPointerConstants \<Rightarrow> SandboxedPointerConstants" where
  "Reset c = c\<lparr>empty_backing_store_buffer_m := 0\<rparr>"

section \<open>The class \<^verbatim>\<open>Sandbox\<close>\<close>

text \<open>
  Modelled from the spec: the types \<^verbatim>\<open>v8::VirtualAddressSpace\<close> and
  \<^verbatim>\<open>v8::PageAllocator\<close> behind the two \<^verbatim>\<open>std::unique_ptr\<close> members (declared in
  \<^verbatim>\<open>include/v8-platform.h\<close>, which is not among the sources). The spec describes
  them as capability objects the sandbox owns: the subspace carved out of the
  reservation (base and size), or on the fallback path the emulated view over a smaller
  reservation (base, reserved size, advertised size), and a page allocator layered on
  that address space. A \<^verbatim>\<open>unique_ptr\<close> is an option: \<open>None\<close> is the null pointer.
\<close>

datatype OwnedAddressSpace =
    Subspace Address size_t
  | EmulatedSubspace Address size_t size_t

datatype PageAllocator = PageAllocatorOn OwnedAddressSpace

record Sandbox =
  base_m :: Address
  end_m :: Address
  size_m :: size_t
  reservation_base_m :: Address
  reservation_size_m :: size_t
  initialized_m :: bool
  disabled_m :: bool
  address_space_m :: "OwnedAddressSpace option"
  sandbox_page_allocator_m :: "PageAllocator option"
  constants_m :: SandboxedPointerConstants

text \<open>
  \<^verbatim>\<open>Sandbox() = default;\<close> with the default member initialisers of the class.
\<close>

definition Sandbox_default :: Sandbox where
  "Sandbox_default =
     \<lparr>base_m = kNullAddress, end_m = kNullAddress, size_m = 0,
      reservation_base_m = kNullAddress, reservation_size_m = 0,
      initialized_m = False, disabled_m = False,
      address_space_m = None, sandbox_page_allocator_m = None,
      constants_m = SandboxedPointerConstants_default\<rparr>"

text \<open>
  \<^verbatim>\<open>void Disable() { CHECK(!initialized_); disabled_ = true; }\<close>
\<close>

definition Disable :: "Sandbox \<Rightarrow> fatal + Sandbox" where
  "Disable s =
     (case CHECK (\<not> initialized_m s) of
        Inl e \<Rightarrow> Inl e
      | Inr _ \<Rightarrow> Inr (s\<lparr>disabled_m := True\<rparr>))"

text \<open>The read accessors; \<open>end'\<close> and \<open>size'\<close> are \<^verbatim>\<open>end()\<close> and \<^verbatim>\<open>size()\<close>.\<close>

definition is_initialized :: "Sandbox \<Rightarrow> bool" where
  "is_initialized s = initialized_m s"

definition is_disabled :: "Sandbox \<Rightarrow> bool" where
  "is_disabled s = disabled_m s"

definition is_enabled :: "Sandbox \<Rightarrow> bool" where
  "is_enabled s = (\<not> disabled_m s)"

definition is_partially_reserved :: "Sandbox \<Rightarrow> bool" where
  "is_partially_reserved s = (reservation_size_m s < size_m s)"

definition base :: "Sandbox \<Rightarrow> Address" where
  "base s = base_m s"

definition end' :: "Sandbox \<Rightarrow> Address" where
  "end' s = end_m s"

definition size' :: "Sandbox \<Rightarrow> size_t" where
  "size' s = size_m s"

definition reservation_size :: "Sandbox \<Rightarrow> size_t" where
  "reservation_size s = reservation_size_m s"

definition address_space :: "Sandbox \<Rightarrow> OwnedAddressSpace option" where
  "address_space s = address_space_m s"

definition page_allocator :: "Sandbox \<Rightarrow> PageAllocator option" where
  "page_allocator s = sandbox_page_allocator_m s"

definition constants :: "Sandbox \<Rightarrow> SandboxedPointerConstants" where
  "constants s = constants_m s"

text \<open>
  \<^verbatim>\<open>bool Contains(Address addr) const { return addr >= base_ && addr < base_ + size_; }\<close>
  The sum is a sum of 64-bit words and wraps around.
\<close>

definition Contains :: "Sandbox \<Rightarrow> Address \<Rightarrow> bool" where
  "Contains s addr = (addr \<ge> base_m s \<and> addr < base_m s + size_m s)"

text \<open>
  \<^verbatim>\<open>bool Contains(void* ptr) const { return Contains(reinterpret_cast<Address>(ptr)); }\<close>
  The overload that takes a pointer is \<open>Contains_ptr\<close>.
\<close>

definition Contains_ptr :: "Sandbox \<Rightarrow> pointer \<Rightarrow> bool" where
  "Contains_ptr s ptr = Contains s (reinterpret_cast_Address ptr)"

text \<open>
  \<^verbatim>\<open>EmptyBackingStoreBuffer()\<close> is compiled in one of two ways. The first argument says
  whether \<^verbatim>\<open>V8_SANDBOXED_POINTERS\<close> is defined; the second is the object
  \<^verbatim>\<open>GetProcessWideSandbox()\<close> points to (the function is only declared in the header),
  which the second branch never reads.
\<close>

definition EmptyBackingStoreBuffer :: "bool \<Rightarrow> Sandbox \<Rightarrow> pointer" where
  "EmptyBackingStoreBuffer V8_SANDBOXED_POINTERS process_wide_sandbox =
     (if V8_SANDBOXED_POINTERS
      then reinterpret_cast_pointer
             (empty_backing_store_buffer (constants process_wide_sandbox))
      else nullptr)"

section \<open>Where the data members are stored\<close>

text \<open>
  The accessors \<^verbatim>\<open>base_address()\<close>, \<^verbatim>\<open>end_address()\<close>, \<^verbatim>\<open>size_address()\<close> and
  \<^verbatim>\<open>empty_backing_store_buffer_address()\<close> return \<^verbatim>\<open>reinterpret_cast<Address>(&x_)\<close>:
  the address of the storage of a data member of the object they are called on. To say
  what a load from such an address yields, the object is placed in a store. The object
  lies at the address \<open>this\<close>; the compiler decides at which offset each member lies, so
  the offsets are a parameter \<open>offsetof\<close>. A cell of the store holds the value of one
  member: a 64-bit word, a flag, or one of the two owning pointers.
\<close>

datatype member =
    Member_base
  | Member_end
  | Member_size
  | Member_reservation_base
  | Member_reservation_size
  | Member_initialized
  | Member_disabled
  | Member_address_space
  | Member_sandbox_page_allocator
  | Member_constants

datatype cell =
    WordCell "64 word"
  | BoolCell bool
  | AddressSpaceCell "OwnedAddressSpace option"
  | PageAllocatorCell "PageAllocator option"

type_synonym memory = "Address \<Rightarrow> cell option"

definition all_members :: "member list" where
  "all_members =
     [Member_base, Member_end, Member_size, Member_reservation_base,
      Member_reservation_size, Member_initialized, Member_disabled,
      Member_address_space, Member_sandbox_page_allocator, Member_constants]"

text \<open>The value a member of the object currently holds.\<close>

fun member_value :: "Sandbox \<Rightarrow> member \<Rightarrow> cell" where
  "member_value s Member_base = WordCell (base_m s)"
| "member_value s Member_end = WordCell (end_m s)"
| "member_value s Member_size = WordCell (size_m s)"
| "member_value s Member_reservation_base = WordCell (reservation_base_m s)"
| "member_value s Member_reservation_size = WordCell (reservation_size_m s)"
| "member_value s Member_initialized = BoolCell (initialized_m s)"
| "member_value s Member_disabled = BoolCell (disabled_m s)"
| "member_value s Member_address_space = AddressSpaceCell (address_space_m s)"
| "member_value s Member_sandbox_page_allocator = PageAllocatorCell (sandbox_page_allocator_m s)"
| "member_value s Member_constants = WordCell (empty_backing_store_buffer_m (constants_m s))"

text \<open>\<^verbatim>\<open>&this->x_\<close> as an integer.\<close>

definition member_address :: "(member \<Rightarrow> size_t) \<Rightarrow> Address \<Rightarrow> member \<Rightarrow> Address" where
  "member_address offsetof this m = this + offsetof m"

text \<open>The store that holds the object \<open>s\<close> at the address \<open>this\<close>, and nothing else.\<close>

definition object_memory :: "(member \<Rightarrow> size_t) \<Rightarrow> Address \<Rightarrow> Sandbox \<Rightarrow> memory" where
  "object_memory offsetof this s =
     map_of (map (\<lambda>m. (member_address offsetof this m, member_value s m)) all_members)"

text \<open>\<^verbatim>\<open>*reinterpret_cast<Address*>(a)\<close>: a load of a word; \<open>None\<close> where no word is stored.\<close>

definition load_word :: "memory \<Rightarrow> Address \<Rightarrow> 64 word option" where
  "load_word mem a = (case mem a of Some (WordCell w) \<Rightarrow> Some w | _ \<Rightarrow> None)"

text \<open>
  \<^verbatim>\<open>Address base_address() const { return reinterpret_cast<Address>(&base_); }\<close>
  and its two siblings. The result depends on where the object lies, not on what it
  holds.
\<close>

definition base_address :: "(member \<Rightarrow> size_t) \<Rightarrow> Address \<Rightarrow> Address" where
  "base_address offsetof this = member_address offsetof this Member_base"

definition end_address :: "(member \<Rightarrow> size_t) \<Rightarrow> Address \<Rightarrow> Address" where
  "end_address offsetof this = member_address offsetof this Member_end"

definition size_address :: "(member \<Rightarrow> size_t) \<Rightarrow> Address \<Rightarrow> Address" where
  "size_address offsetof this = member_address offsetof this Member_size"

text \<open>
  A \<^verbatim>\<open>SandboxedPointerConstants\<close> object has one data member, which lies at the start
  of the object: \<^verbatim>\<open>&empty_backing_store_buffer_\<close> is the address \<open>this\<close> of the object.
\<close>

definition empty_backing_store_buffer_address :: "Address \<Rightarrow> Address" where
  "empty_backing_store_buffer_address this = this"

definition constants_memory :: "Address \<Rightarrow> SandboxedPointerConstants \<Rightarrow> memory" where
  "constants_memory this c = [this \<mapsto> WordCell (empty_backing_store_buffer_m c)]"

section \<open>Initialisation and teardown\<close>

text \<open>
  Modelled from the spec: the address space capability handed to \<^verbatim>\<open>Initialize\<close> (the
  class \<^verbatim>\<open>v8::VirtualAddressSpace\<close>, not among the sources). Section 6 of the spec
  lists what it supplies: \<^verbatim>\<open>allocateSubspace(size, alignment)\<close>, which yields a
  subspace or null (here the base address of the subspace), the allocation granularity,
  and the reserve primitive the fallback path uses (here the base address of the
  reserved range). The spec treats a reservation as deterministic, so each is a function.
\<close>

record AddressSpace =
  allocateSubspace :: "size_t \<Rightarrow> size_t \<Rightarrow> Address option"
  allocationGranularity :: size_t
  reserve :: "size_t \<Rightarrow> Address option"

text \<open>
  Modelled from the spec: the tuning constants, which section 9 of the spec leaves to
  configuration: the default sandbox size and guard policy, the size of one guard
  region, the alignment asked of the reservation, the smaller default that the fallback
  reserves, and the address that constants initialisation stores as the empty backing
  store buffer (given the base and the end of the sandbox).
\<close>

record SandboxPolicy =
  defaultSize :: size_t
  useGuardRegions :: bool
  guardSize :: size_t
  alignment :: size_t
  defaultSizeToReserve :: size_t
  emptyBackingStoreBufferAt :: "Address \<Rightarrow> Address \<Rightarrow> Address"

text \<open>
  Modelled from the spec: "must be a multiple of the AddressSpace's allocation
  granularity" (sections 3, 4.1 and 4.2).
\<close>

definition is_multiple_of :: "size_t \<Rightarrow> size_t \<Rightarrow> bool" where
  "is_multiple_of n granularity = (granularity \<noteq> 0 \<and> n mod granularity = 0)"

text \<open>
  Modelled from the spec: \<^verbatim>\<open>Sandbox::InitializeConstants\<close> (declared in the header,
  defined in \<^verbatim>\<open>sandbox.cc\<close>, which is not among the sources). Section 4.4: the setter of
  the constants is used during sandbox initialisation.
\<close>

definition InitializeConstants :: "SandboxPolicy \<Rightarrow> Sandbox \<Rightarrow> Sandbox" where
  "InitializeConstants pol s =
     s\<lparr>constants_m :=
         set_empty_backing_store_buffer
           (emptyBackingStoreBufferAt pol (base_m s) (end_m s)) (constants_m s)\<rparr>"

text \<open>
  Modelled from the spec: \<^verbatim>\<open>Sandbox::Initialize(vas, size, use_guard_regions)\<close>
  (declared in the header, defined in \<^verbatim>\<open>sandbox.cc\<close>, which is not among the sources).
  Section 4.1: reserve \<^verbatim>\<open>size + 2*guardSize\<close> from the capability (\<^verbatim>\<open>size\<close> alone without
  guard regions); on success the inner range becomes \<^verbatim>\<open>[base, end)\<close>, the page
  allocator and the constants are set up and \<^verbatim>\<open>initialized\<close> is set; on failure nothing
  is applied. Preconditions, each a violation signalled at once: the sandbox is not
  initialised (section 4.3), it is not disabled (section 3: the two flags exclude each
  other), and \<^verbatim>\<open>size\<close> is a multiple of the granularity (section 7). The parameter
  \<^verbatim>\<open>size\<close> is written \<open>sz\<close>.
\<close>

definition Initialize_with_size ::
    "SandboxPolicy \<Rightarrow> AddressSpace \<Rightarrow> size_t \<Rightarrow> bool \<Rightarrow> Sandbox \<Rightarrow> fatal + (bool \<times> Sandbox)" where
  "Initialize_with_size pol vas sz use_guard_regions s =
     (if initialized_m s \<or> disabled_m s then Inl CHECK_failed
      else if \<not> is_multiple_of sz (allocationGranularity vas) then Inl CHECK_failed
      else
        let reservation_size =
              (if use_guard_regions then sz + 2 * guardSize pol else sz)
        in case allocateSubspace vas reservation_size (alignment pol) of
             None \<Rightarrow> Inr (False, s)
           | Some reservation_base \<Rightarrow>
               let b = (if use_guard_regions then reservation_base + guardSize pol
                        else reservation_base);
                   space = Subspace reservation_base reservation_size
               in Inr (True,
                    InitializeConstants pol
                      (s\<lparr>base_m := b, end_m := b + sz, size_m := sz,
                         reservation_base_m := reservation_base,
                         reservation_size_m := reservation_size,
                         initialized_m := True,
                         address_space_m := Some space,
                         sandbox_page_allocator_m := Some (PageAllocatorOn space)\<rparr>)))"

text \<open>
  Modelled from the spec: \<^verbatim>\<open>Sandbox::InitializeAsPartiallyReservedSandbox\<close> (declared in
  the header, defined in \<^verbatim>\<open>sandbox.cc\<close>, which is not among the sources). Section 4.2:
  reserve only \<^verbatim>\<open>sizeToReserve < size\<close>, build the emulated view that advertises the
  full \<^verbatim>\<open>size\<close>, and omit the guard regions; both sizes must be multiples of the
  granularity; if the smaller reservation fails the sandbox remains uninitialised.
\<close>

definition InitializeAsPartiallyReservedSandbox ::
    "SandboxPolicy \<Rightarrow> AddressSpace \<Rightarrow> size_t \<Rightarrow> size_t \<Rightarrow> Sandbox \<Rightarrow> fatal + (bool \<times> Sandbox)" where
  "InitializeAsPartiallyReservedSandbox pol vas sz size_to_reserve s =
     (if initialized_m s \<or> disabled_m s then Inl CHECK_failed
      else if \<not> (is_multiple_of sz (allocationGranularity vas)
                \<and> is_multiple_of size_to_reserve (allocationGranularity vas))
        then Inl CHECK_failed
      else if \<not> size_to_reserve < sz then Inl CHECK_failed
      else
        case reserve vas size_to_reserve of
          None \<Rightarrow> Inr (False, s)
        | Some reservation_base \<Rightarrow>
            let space = EmulatedSubspace reservation_base size_to_reserve sz
            in Inr (True,
                 InitializeConstants pol
                   (s\<lparr>base_m := reservation_base, end_m := reservation_base + sz,
                      size_m := sz,
                      reservation_base_m := reservation_base,
                      reservation_size_m := size_to_reserve,
                      initialized_m := True,
                      address_space_m := Some space,
                      sandbox_page_allocator_m := Some (PageAllocatorOn space)\<rparr>)))"

text \<open>
  Modelled from the spec: \<^verbatim>\<open>Sandbox::Initialize(vas)\<close> (declared in the header, defined in
  \<^verbatim>\<open>sandbox.cc\<close>, which is not among the sources). Section 4.3: try the full reservation
  with the default size and guard policy; on failure try the partial reservation with
  the smaller default.
\<close>

definition Initialize :: "SandboxPolicy \<Rightarrow> AddressSpace \<Rightarrow> Sandbox \<Rightarrow> fatal + (bool \<times> Sandbox)" where
  "Initialize pol vas s =
     (case Initialize_with_size pol vas (defaultSize pol) (useGuardRegions pol) s of
        Inl e \<Rightarrow> Inl e
      | Inr (success, s') \<Rightarrow>
          if success then Inr (True, s')
          else InitializeAsPartiallyReservedSandbox pol vas
                 (defaultSize pol) (defaultSizeToReserve pol) s')"

text \<open>
  Modelled from the spec: \<^verbatim>\<open>Sandbox::TearDown\<close> (declared in the header, defined in
  \<^verbatim>\<open>sandbox.cc\<close>, which is not among the sources). Section 4.3: release the owned
  address space and page allocator, reset every geometry field to its sentinel, clear
  \<^verbatim>\<open>initialized\<close>; section 4.4: reset the constants. It may be called on an instance
  that was never initialised.
\<close>

definition TearDown :: "Sandbox \<Rightarrow> Sandbox" where
  "TearDown s =
     s\<lparr>address_space_m := None, sandbox_page_allocator_m := None,
       base_m := kNullAddress, end_m := kNullAddress, size_m := 0,
       reservation_base_m := kNullAddress, reservation_size_m := 0,
       initialized_m := False,
       constants_m := Reset (constants_m s)\<rparr>"

text \<open>
  The calls that change a sandbox, and a run of them from a given state. A run stops at
  the first violated precondition; a call to an initialising function that returns
  false counts as a call (it is not an error).
\<close>

datatype lifecycle_call =
    Call_Initialize AddressSpace
  | Call_Initialize_with_size AddressSpace size_t bool
  | Call_InitializeAsPartiallyReservedSandbox AddressSpace size_t size_t
  | Call_Disable
  | Call_TearDown

fun call :: "SandboxPolicy \<Rightarrow> lifecycle_call \<Rightarrow> Sandbox \<Rightarrow> fatal + Sandbox" where
  "call pol (Call_Initialize vas) s = map_sum id snd (Initialize pol vas s)"
| "call pol (Call_Initialize_with_size vas sz use_guard_regions) s =
     map_sum id snd (Initialize_with_size pol vas sz use_guard_regions s)"
| "call pol (Call_InitializeAsPartiallyReservedSandbox vas sz size_to_reserve) s =
     map_sum id snd (InitializeAsPartiallyReservedSandbox pol vas sz size_to_reserve s)"
| "call pol Call_Disable s = Disable s"
| "call pol Call_TearDown s = Inr (TearDown s)"

fun calls :: "SandboxPolicy \<Rightarrow> lifecycle_call list \<Rightarrow> Sandbox \<Rightarrow> fatal + Sandbox" where
  "calls pol [] s = Inr s"
| "calls pol (c # cs) s =
     (case call pol c s of Inl e \<Rightarrow> Inl e | Inr s' \<Rightarrow> calls pol cs s')"

text \<open>
  What a call to one of the three initialising functions that returns \<open>(ok, s')\<close> from
  the state \<open>s\<close> has done: the preconditions held, and either the sandbox is
  initialised with its end at base plus size, or nothing was changed.
\<close>

definition initialize_outcome :: "Sandbox \<Rightarrow> bool \<Rightarrow> Sandbox \<Rightarrow> bool" where
  "initialize_outcome s ok s' =
     (\<not> initialized_m s \<and> \<not> disabled_m s
      \<and> (if ok then initialized_m s' \<and> end_m s' = base_m s' + size_m s' \<and> \<not> disabled_m s'
          else s' = s))"

section \<open>Concrete objects\<close>

text \<open>
  An initialised sandbox as the diagram of the header draws it: 1 TB between two guard
  regions of 32 GB, the reservation starting at \<open>0x200000000000\<close>.
\<close>

definition example_sandbox :: Sandbox where
  "example_sandbox =
     \<lparr>base_m = 0x200800000000, end_m = 0x210800000000, size_m = 0x10000000000,
      reservation_base_m = 0x200000000000, reservation_size_m = 0x11000000000,
      initialized_m = True, disabled_m = False,
      address_space_m = Some (Subspace 0x200000000000 0x11000000000),
      sandbox_page_allocator_m =
        Some (PageAllocatorOn (Subspace 0x200000000000 0x11000000000)),
      constants_m = \<lparr>empty_backing_store_buffer_m = 0x2107FFFFFFFF\<rparr>\<rparr>"

text \<open>The offsets a 64-bit compiler gives the members, in their order of declaration.\<close>

fun example_offsetof :: "member \<Rightarrow> size_t" where
  "example_offsetof Member_base = 0"
| "example_offsetof Member_end = 8"
| "example_offsetof Member_size = 16"
| "example_offsetof Member_reservation_base = 24"
| "example_offsetof Member_reservation_size = 32"
| "example_offsetof Member_initialized = 40"
| "example_offsetof Member_disabled = 41"
| "example_offsetof Member_address_space = 48"
| "example_offsetof Member_sandbox_page_allocator = 56"
| "example_offsetof Member_constants = 64"

text \<open>
  A policy (1 TB, guard regions of 32 GB, 8 GB reserved on the fallback path, pages of
  4 KB), an address space that grants every request and one that refuses every request.
\<close>

definition example_policy :: SandboxPolicy where
  "example_policy =
     \<lparr>defaultSize = 0x10000000000, useGuardRegions = True, guardSize = 0x800000000,
      alignment = 0x100000000, defaultSizeToReserve = 0x200000000,
      emptyBackingStoreBufferAt = (\<lambda>b e. e - 1)\<rparr>"

definition granting_address_space :: AddressSpace where
  "granting_address_space =
     \<lparr>allocateSubspace = (\<lambda>sz al. Some 0x200000000000),
      allocationGranularity = 0x1000,
      reserve = (\<lambda>sz. Some 0x300000000000)\<rparr>"

definition refusing_address_space :: AddressSpace where
  "refusing_address_space =
     \<lparr>allocateSubspace = (\<lambda>sz al. None),
      allocationGranularity = 0x1000,
      reserve = (\<lambda>sz. None)\<rparr>"

text \<open>
  An address space too fragmented for a subspace that still lets 8 GB be reserved, and
  the partially reserved sandbox that results from it.
\<close>

definition fragmented_address_space :: AddressSpace where
  "fragmented_address_space =
     \<lparr>allocateSubspace = (\<lambda>sz al. None),
      allocationGranularity = 0x1000,
      reserve = (\<lambda>sz. if sz \<le> 0x200000000 then Some 0x300000000000 else None)\<rparr>"

definition example_partial_sandbox :: Sandbox where
  "example_partial_sandbox =
     \<lparr>base_m = 0x300000000000, end_m = 0x310000000000, size_m = 0x10000000000,
      reservation_base_m = 0x300000000000, reservation_size_m = 0x200000000,
      initialized_m = True, disabled_m = False,
      address_space_m = Some (EmulatedSubspace 0x300000000000 0x200000000 0x10000000000),
      sandbox_page_allocator_m =
        Some (PageAllocatorOn (EmulatedSubspace 0x300000000000 0x200000000 0x10000000000)),
      constants_m = \<lparr>empty_backing_store_buffer_m = 0x30FFFFFFFFFF\<rparr>\<rparr>"




section \<open>Bounds checking\<close>




text \<open>
  Claim C2. In every state of the sandbox, and so in every state it can reach (before
  initialisation, after a full or a partial initialisation, after teardown),
  \<^verbatim>\<open>is_partially_reserved()\<close> is true exactly when \<^verbatim>\<open>reservation_size() < size()\<close>, the
  two sizes being compared as unsigned numbers.
\<close>

theorem is_partially_reserved_iff:
  "is_partially_reserved s = (reservation_size s < size' s)
   \<and> (is_partially_reserved s \<longleftrightarrow> unat (reservation_size s) < unat (size' s))
   \<and> \<not> is_partially_reserved Sandbox_default
   \<and> \<not> is_partially_reserved example_sandbox
   \<and> is_partially_reserved example_partial_sandbox"
  by (simp add: is_partially_reserved_def reservation_size_def size'_def word_less_nat_alt
      Sandbox_default_def example_sandbox_def example_partial_sandbox_def)

text \<open>
  Claim C9. For every pointer \<open>ptr\<close>, the overload \<^verbatim>\<open>Contains(void*)\<close> returns what the
  overload \<^verbatim>\<open>Contains(Address)\<close> returns on the address obtained by reinterpreting
  \<open>ptr\<close>; for a pointer made from an address, that is the answer for this address.
\<close>

theorem Contains_pointer_overload:
  "Contains_ptr s ptr = Contains s (reinterpret_cast_Address ptr)
   \<and> Contains_ptr s (reinterpret_cast_pointer a) = Contains s a
   \<and> Contains_ptr s (Pointer a) = (base s \<le> a \<and> a < base s + size' s)"
  by (simp add: Contains_ptr_def Contains_def reinterpret_cast_Address_def
      reinterpret_cast_pointer_def base_def size'_def)

text \<open>
  Claim C7. With sandboxed pointers compiled in, \<^verbatim>\<open>EmptyBackingStoreBuffer()\<close> returns,
  as a pointer, the value that the member \<^verbatim>\<open>empty_backing_store_buffer_\<close> of the
  constants of the process-wide sandbox holds: the value last stored there by
  \<^verbatim>\<open>set_empty_backing_store_buffer\<close>, which differs from one sandbox to another. With
  sandboxed pointers compiled out it returns the null pointer, whatever the process-wide
  sandbox is.
\<close>

theorem EmptyBackingStoreBuffer_cases:
  "EmptyBackingStoreBuffer True process_wide_sandbox
     = Pointer (empty_backing_store_buffer_m (constants_m process_wide_sandbox))
   \<and> EmptyBackingStoreBuffer True process_wide_sandbox
       = reinterpret_cast_pointer (empty_backing_store_buffer (constants process_wide_sandbox))
   \<and> reinterpret_cast_Address (EmptyBackingStoreBuffer True process_wide_sandbox)
       = empty_backing_store_buffer_m (constants_m process_wide_sandbox)
   \<and> EmptyBackingStoreBuffer True
        (process_wide_sandbox
           \<lparr>constants_m :=
              set_empty_backing_store_buffer X (constants_m process_wide_sandbox)\<rparr>)
       = Pointer X
   \<and> EmptyBackingStoreBuffer True example_sandbox = Pointer 0x2107FFFFFFFF
   \<and> EmptyBackingStoreBuffer True example_partial_sandbox = Pointer 0x30FFFFFFFFFF
   \<and> EmptyBackingStoreBuffer False process_wide_sandbox = nullptr
   \<and> nullptr = Pointer 0
   \<and> EmptyBackingStoreBuffer False process_wide_sandbox
       = EmptyBackingStoreBuffer False any_other_sandbox"
  by (simp add: EmptyBackingStoreBuffer_def reinterpret_cast_pointer_def
      reinterpret_cast_Address_def empty_backing_store_buffer_def constants_def
      set_empty_backing_store_buffer_def nullptr_def example_sandbox_def
      example_partial_sandbox_def)

section \<open>Disabling\<close>

lemma Disable_uninitialized:
  "\<not> initialized_m s \<Longrightarrow> Disable s = Inr (s\<lparr>disabled_m := True\<rparr>)"
  by (simp add: Disable_def CHECK_def)

lemma Disable_initialized: "initialized_m s \<Longrightarrow> Disable s = Inl CHECK_failed"
  by (simp add: Disable_def CHECK_def)

lemma Disable_Inr:
  "Disable s = Inr s' \<Longrightarrow> \<not> initialized_m s \<and> s' = s\<lparr>disabled_m := True\<rparr>"
  by (cases "initialized_m s") (auto simp add: Disable_def CHECK_def)

text \<open>
  Claim C10. Called on a sandbox that is not initialised, \<^verbatim>\<open>Disable()\<close> succeeds and
  changes the disabled flag only: the new state is the old one with the flag set, so
  base, end, size, reservation base, reservation size, the initialised flag, the
  address space, the page allocator and the constants are what they were. A second call
  succeeds and leaves the state as it is; more generally \<^verbatim>\<open>Disable()\<close> on a sandbox
  that is disabled and not initialised returns the same state.
\<close>

theorem Disable_changes_only_disabled:
  "(\<not> is_initialized s \<longrightarrow>
      (\<exists>s'. Disable s = Inr s' \<and> s' = s\<lparr>disabled_m := True\<rparr>
         \<and> base s' = base s \<and> end' s' = end' s \<and> size' s' = size' s
         \<and> reservation_base_m s' = reservation_base_m s
         \<and> reservation_size s' = reservation_size s
         \<and> is_initialized s' = is_initialized s
         \<and> address_space s' = address_space s
         \<and> page_allocator s' = page_allocator s
         \<and> constants s' = constants s
         \<and> Disable s' = Inr s'))
   \<and> (\<not> is_initialized s \<and> is_disabled s \<longrightarrow> Disable s = Inr s)"
  by (simp add: Disable_uninitialized is_initialized_def is_disabled_def base_def end'_def
      size'_def reservation_size_def address_space_def page_allocator_def constants_def)

theorem Disable_changes_only_disabled_witness:
  "\<not> is_initialized Sandbox_default
   \<and> Disable Sandbox_default = Inr (Sandbox_default\<lparr>disabled_m := True\<rparr>)
   \<and> \<not> is_initialized (Sandbox_default\<lparr>disabled_m := True\<rparr>)
   \<and> is_disabled (Sandbox_default\<lparr>disabled_m := True\<rparr>)
   \<and> Disable (Sandbox_default\<lparr>disabled_m := True\<rparr>)
       = Inr (Sandbox_default\<lparr>disabled_m := True\<rparr>)"
  using Disable_changes_only_disabled [of Sandbox_default]
    Disable_changes_only_disabled [of "Sandbox_default\<lparr>disabled_m := True\<rparr>"]
  by (simp add: Sandbox_default_def is_initialized_def is_disabled_def)

section \<open>The stored constant and the stored geometry\<close>

text \<open>
  Claim C6. A default-constructed \<^verbatim>\<open>SandboxedPointerConstants\<close>, and so the constants
  of a default-constructed sandbox, read as the null sentinel. After
  \<^verbatim>\<open>set_empty_backing_store_buffer(X)\<close> the accessor \<^verbatim>\<open>empty_backing_store_buffer()\<close>
  yields \<open>X\<close>, and so does a load from the address that
  \<^verbatim>\<open>empty_backing_store_buffer_address()\<close> returns. After \<^verbatim>\<open>Reset()\<close> both yield the null
  sentinel again.
\<close>

theorem empty_backing_store_buffer_constant:
  "empty_backing_store_buffer SandboxedPointerConstants_default = kNullAddress
   \<and> empty_backing_store_buffer (constants Sandbox_default) = kNullAddress
   \<and> kNullAddress = 0
   \<and> empty_backing_store_buffer (set_empty_backing_store_buffer X c) = X
   \<and> load_word (constants_memory this (set_empty_backing_store_buffer X c))
        (empty_backing_store_buffer_address this) = Some X
   \<and> empty_backing_store_buffer (Reset c) = kNullAddress
   \<and> load_word (constants_memory this (Reset c))
        (empty_backing_store_buffer_address this) = Some kNullAddress"
  by (simp add: empty_backing_store_buffer_def SandboxedPointerConstants_default_def
      kNullAddress_def constants_def Sandbox_default_def set_empty_backing_store_buffer_def
      Reset_def load_word_def constants_memory_def empty_backing_store_buffer_address_def)

text \<open>
  Claim C8. \<^verbatim>\<open>base_address()\<close>, \<^verbatim>\<open>end_address()\<close> and \<^verbatim>\<open>size_address()\<close> return where the
  members are stored: they depend on where the object lies and not on what it holds.
  Whatever the state of the sandbox, a load from \<^verbatim>\<open>base_address()\<close> yields \<^verbatim>\<open>base()\<close>, a
  load from \<^verbatim>\<open>end_address()\<close> yields \<^verbatim>\<open>end()\<close> and a load from \<^verbatim>\<open>size_address()\<close>
  yields \<^verbatim>\<open>size()\<close>, the members of an object lying at different offsets.
\<close>

theorem address_accessors_point_at_members:
  "distinct (map offsetof all_members) \<Longrightarrow>
     load_word (object_memory offsetof this s) (base_address offsetof this) = Some (base s)
     \<and> load_word (object_memory offsetof this s) (end_address offsetof this) = Some (end' s)
     \<and> load_word (object_memory offsetof this s) (size_address offsetof this) = Some (size' s)"
  by (auto simp add: all_members_def object_memory_def load_word_def member_address_def
      base_address_def end_address_def size_address_def base_def end'_def size'_def)

theorem address_accessors_point_at_members_witness:
  "distinct (map example_offsetof all_members)
   \<and> base_address example_offsetof 0x7000 = 0x7000
   \<and> end_address example_offsetof 0x7000 = 0x7008
   \<and> size_address example_offsetof 0x7000 = 0x7010
   \<and> load_word (object_memory example_offsetof 0x7000 example_sandbox) 0x7000
       = Some 0x200800000000
   \<and> load_word (object_memory example_offsetof 0x7000 example_sandbox) 0x7008
       = Some 0x210800000000
   \<and> load_word (object_memory example_offsetof 0x7000 example_sandbox) 0x7010
       = Some 0x10000000000
   \<and> load_word (object_memory example_offsetof 0x7000 Sandbox_default) 0x7010 = Some 0"
  using address_accessors_point_at_members [of example_offsetof "0x7000" example_sandbox]
    address_accessors_point_at_members [of example_offsetof "0x7000" Sandbox_default]
  by (simp add: all_members_def base_address_def end_address_def size_address_def
      member_address_def base_def end'_def size'_def example_sandbox_def Sandbox_default_def)

section \<open>What initialisation and teardown establish\<close>

lemma Initialize_with_size_Inr:
  assumes "Initialize_with_size pol vas sz g s = Inr (ok, s')"
  shows "initialize_outcome s ok s'"
proof -
  from assms have pre: "\<not> initialized_m s \<and> \<not> disabled_m s"
    by (simp add: Initialize_with_size_def split: if_splits)
  let ?n = "if g then sz + 2 * guardSize pol else sz"
  show ?thesis
  proof (cases "allocateSubspace vas ?n (alignment pol)")
    case None
    with assms pre show ?thesis
      by (simp add: initialize_outcome_def Initialize_with_size_def Let_def split: if_splits)
  next
    case (Some rb)
    with assms pre show ?thesis
      by (clarsimp simp add: initialize_outcome_def Initialize_with_size_def Let_def
          InitializeConstants_def split: if_splits)
  qed
qed

lemma InitializeAsPartiallyReservedSandbox_Inr:
  assumes "InitializeAsPartiallyReservedSandbox pol vas sz r s = Inr (ok, s')"
  shows "initialize_outcome s ok s'"
proof -
  from assms have pre: "\<not> initialized_m s \<and> \<not> disabled_m s"
    by (simp add: InitializeAsPartiallyReservedSandbox_def split: if_splits)
  show ?thesis
  proof (cases "reserve vas r")
    case None
    with assms pre show ?thesis
      by (simp add: initialize_outcome_def InitializeAsPartiallyReservedSandbox_def Let_def
          split: if_splits)
  next
    case (Some rb)
    with assms pre show ?thesis
      by (clarsimp simp add: initialize_outcome_def InitializeAsPartiallyReservedSandbox_def
          Let_def InitializeConstants_def split: if_splits)
  qed
qed

lemma Initialize_Inr:
  assumes "Initialize pol vas s = Inr (ok, s')"
  shows "initialize_outcome s ok s'"
proof (cases "Initialize_with_size pol vas (defaultSize pol) (useGuardRegions pol) s")
  case (Inl e)
  then show ?thesis using assms by (simp add: Initialize_def)
next
  case (Inr r)
  obtain ok1 s1 where r: "r = (ok1, s1)" by (cases r)
  have first: "initialize_outcome s ok1 s1"
    using Inr r by (simp add: Initialize_with_size_Inr)
  show ?thesis
  proof (cases ok1)
    case True
    then have "ok = True \<and> s' = s1" using assms Inr r by (simp add: Initialize_def)
    then show ?thesis using first True by simp
  next
    case False
    then have "s1 = s" using first by (simp add: initialize_outcome_def)
    then have "InitializeAsPartiallyReservedSandbox pol vas
                 (defaultSize pol) (defaultSizeToReserve pol) s = Inr (ok, s')"
      using assms Inr r False by (simp add: Initialize_def)
    then show ?thesis by (rule InitializeAsPartiallyReservedSandbox_Inr)
  qed
qed

text \<open>With every request refused, both attempts of \<^verbatim>\<open>Initialize\<close> give up.\<close>

lemma Initialize_refused:
  assumes "\<not> initialized_m s" and "\<not> disabled_m s"
    and "is_multiple_of (defaultSize pol) (allocationGranularity vas)"
    and "is_multiple_of (defaultSizeToReserve pol) (allocationGranularity vas)"
    and "defaultSizeToReserve pol < defaultSize pol"
    and "\<forall>sz al. allocateSubspace vas sz al = None"
    and "\<forall>sz. reserve vas sz = None"
  shows "Initialize pol vas s = Inr (False, s)"
  using assms
  by (simp add: Initialize_def Initialize_with_size_def
      InitializeAsPartiallyReservedSandbox_def Let_def)

subsection \<open>Runs of calls\<close>

lemma map_sum_snd_Inr:
  "map_sum id snd x = Inr s' \<Longrightarrow> \<exists>ok. x = Inr (ok, s')"
  by (cases x) auto

lemma call_Inr_cases:
  assumes "call pol c s = Inr s'"
  shows "(\<exists>ok. initialize_outcome s ok s')
         \<or> (\<not> initialized_m s \<and> s' = s\<lparr>disabled_m := True\<rparr>)
         \<or> s' = TearDown s"
proof (cases c)
  case (Call_Initialize vas)
  then have "\<exists>ok. Initialize pol vas s = Inr (ok, s')"
    using assms by (simp add: map_sum_snd_Inr)
  then show ?thesis using Initialize_Inr by blast
next
  case (Call_Initialize_with_size vas sz g)
  then have "\<exists>ok. Initialize_with_size pol vas sz g s = Inr (ok, s')"
    using assms by (simp add: map_sum_snd_Inr)
  then show ?thesis using Initialize_with_size_Inr by blast
next
  case (Call_InitializeAsPartiallyReservedSandbox vas sz r)
  then have "\<exists>ok. InitializeAsPartiallyReservedSandbox pol vas sz r s = Inr (ok, s')"
    using assms by (simp add: map_sum_snd_Inr)
  then show ?thesis using InitializeAsPartiallyReservedSandbox_Inr by blast
next
  case Call_Disable
  then have "Disable s = Inr s'" using assms by simp
  then show ?thesis using Disable_Inr by blast
next
  case Call_TearDown
  then show ?thesis using assms by simp
qed

lemma call_preserves_geometry:
  assumes "call pol c s = Inr s'" and "end_m s = base_m s + size_m s"
  shows "end_m s' = base_m s' + size_m s'"
proof -
  from call_Inr_cases [OF assms(1)]
  consider ok where "initialize_outcome s ok s'"
    | "s' = s\<lparr>disabled_m := True\<rparr>"
    | "s' = TearDown s"
    by blast
  then show ?thesis
  proof cases
    case 1
    then show ?thesis using assms(2) by (cases ok) (simp_all add: initialize_outcome_def)
  next
    case 2
    then show ?thesis using assms(2) by simp
  next
    case 3
    then show ?thesis by (simp add: TearDown_def kNullAddress_def)
  qed
qed

lemma call_keeps_disabled:
  assumes "call pol c s = Inr s'" and "disabled_m s"
  shows "disabled_m s'"
proof -
  from call_Inr_cases [OF assms(1)]
  consider ok where "initialize_outcome s ok s'"
    | "s' = s\<lparr>disabled_m := True\<rparr>"
    | "s' = TearDown s"
    by blast
  then show ?thesis
  proof cases
    case 1
    then show ?thesis using assms(2) by (simp add: initialize_outcome_def)
  next
    case 2
    then show ?thesis by simp
  next
    case 3
    then show ?thesis using assms(2) by (simp add: TearDown_def)
  qed
qed

lemma calls_Cons_Inr:
  "calls pol (c # cs) s = Inr s' \<Longrightarrow>
     \<exists>s1. call pol c s = Inr s1 \<and> calls pol cs s1 = Inr s'"
  by (cases "call pol c s") simp_all

lemma calls_preserve_geometry:
  "calls pol cs s = Inr s' \<Longrightarrow> end_m s = base_m s + size_m s
     \<Longrightarrow> end_m s' = base_m s' + size_m s'"
proof (induction cs arbitrary: s)
  case Nil
  then show ?case by simp
next
  case (Cons c cs)
  from calls_Cons_Inr [OF Cons.prems(1)]
  obtain s1 where step: "call pol c s = Inr s1" and rest: "calls pol cs s1 = Inr s'"
    by blast
  have "end_m s1 = base_m s1 + size_m s1"
    using step Cons.prems(2) by (rule call_preserves_geometry)
  with rest show ?case by (rule Cons.IH)
qed

lemma calls_keep_disabled:
  "calls pol cs s = Inr s' \<Longrightarrow> disabled_m s \<Longrightarrow> disabled_m s'"
proof (induction cs arbitrary: s)
  case Nil
  then show ?case by simp
next
  case (Cons c cs)
  from calls_Cons_Inr [OF Cons.prems(1)]
  obtain s1 where step: "call pol c s = Inr s1" and rest: "calls pol cs s1 = Inr s'"
    by blast
  have "disabled_m s1"
    using step Cons.prems(2) by (rule call_keeps_disabled)
  with rest show ?case by (rule Cons.IH)
qed



subsection \<open>The concrete objects, run\<close>

lemma Initialize_granting:
  "Initialize example_policy granting_address_space Sandbox_default = Inr (True, example_sandbox)"
  by (simp add: Initialize_def Initialize_with_size_def example_policy_def
      granting_address_space_def Sandbox_default_def example_sandbox_def is_multiple_of_def
      InitializeConstants_def set_empty_backing_store_buffer_def
      SandboxedPointerConstants_default_def kNullAddress_def Let_def)

lemma Initialize_with_size_granting:
  "Initialize_with_size example_policy granting_address_space 0x10000000000 True Sandbox_default
     = Inr (True, example_sandbox)"
  by (simp add: Initialize_with_size_def example_policy_def
      granting_address_space_def Sandbox_default_def example_sandbox_def is_multiple_of_def
      InitializeConstants_def set_empty_backing_store_buffer_def
      SandboxedPointerConstants_default_def kNullAddress_def Let_def)

lemma InitializeAsPartiallyReservedSandbox_fragmented:
  "InitializeAsPartiallyReservedSandbox example_policy fragmented_address_space
     0x10000000000 0x200000000 Sandbox_default = Inr (True, example_partial_sandbox)"
  by (simp add: InitializeAsPartiallyReservedSandbox_def example_policy_def
      fragmented_address_space_def Sandbox_default_def example_partial_sandbox_def
      is_multiple_of_def InitializeConstants_def set_empty_backing_store_buffer_def
      SandboxedPointerConstants_default_def kNullAddress_def Let_def)

lemma Initialize_fragmented:
  "Initialize example_policy fragmented_address_space Sandbox_default
     = Inr (True, example_partial_sandbox)"
  by (simp add: Initialize_def Initialize_with_size_def
      InitializeAsPartiallyReservedSandbox_def example_policy_def
      fragmented_address_space_def Sandbox_default_def example_partial_sandbox_def
      is_multiple_of_def InitializeConstants_def set_empty_backing_store_buffer_def
      SandboxedPointerConstants_default_def kNullAddress_def Let_def)

lemma TearDown_example_partial_sandbox: "TearDown example_partial_sandbox = Sandbox_default"
  by (simp add: TearDown_def example_partial_sandbox_def Sandbox_default_def Reset_def
      SandboxedPointerConstants_default_def kNullAddress_def)

lemma calls_example:
  "calls example_policy
     [Call_Initialize fragmented_address_space, Call_TearDown,
      Call_Initialize granting_address_space] Sandbox_default = Inr example_sandbox"
  by (simp add: Initialize_fragmented TearDown_example_partial_sandbox Initialize_granting)




section \<open>The lifecycle claims\<close>

text \<open>
  Claim C3. Let the sandbox be neither initialised nor disabled and the configured
  sizes be as \<^verbatim>\<open>Initialize\<close> requires them (multiples of the granularity, the fallback
  reservation smaller than the size). If the address space refuses every request, the
  subspace as well as the smaller reservation of the fallback, then \<^verbatim>\<open>Initialize\<close>
  returns false and the state after the call is the state before it: the sandbox is
  still not initialised and base, end, size, reservation base and reservation size
  are untouched.
\<close>

theorem Initialize_failure_is_atomic:
  assumes "\<not> is_initialized s" and "\<not> is_disabled s"
    and "is_multiple_of (defaultSize pol) (allocationGranularity vas)"
    and "is_multiple_of (defaultSizeToReserve pol) (allocationGranularity vas)"
    and "defaultSizeToReserve pol < defaultSize pol"
    and "\<forall>sz al. allocateSubspace vas sz al = None"
    and "\<forall>sz. reserve vas sz = None"
  shows "\<exists>s'. Initialize pol vas s = Inr (False, s') \<and> s' = s
           \<and> \<not> is_initialized s'
           \<and> base s' = base s \<and> end' s' = end' s \<and> size' s' = size' s
           \<and> reservation_base_m s' = reservation_base_m s
           \<and> reservation_size s' = reservation_size s"
  using assms Initialize_refused [of s pol vas]
  by (simp add: is_initialized_def is_disabled_def)

theorem Initialize_failure_is_atomic_witness:
  "\<not> is_initialized Sandbox_default \<and> \<not> is_disabled Sandbox_default
   \<and> is_multiple_of (defaultSize example_policy) (allocationGranularity refusing_address_space)
   \<and> is_multiple_of (defaultSizeToReserve example_policy)
        (allocationGranularity refusing_address_space)
   \<and> defaultSizeToReserve example_policy < defaultSize example_policy
   \<and> (\<forall>sz al. allocateSubspace refusing_address_space sz al = None)
   \<and> (\<forall>sz. reserve refusing_address_space sz = None)
   \<and> Initialize example_policy refusing_address_space Sandbox_default
        = Inr (False, Sandbox_default)
   \<and> base Sandbox_default = 0 \<and> end' Sandbox_default = 0 \<and> size' Sandbox_default = 0
   \<and> reservation_base_m Sandbox_default = 0 \<and> reservation_size Sandbox_default = 0"
  using Initialize_failure_is_atomic [of Sandbox_default example_policy refusing_address_space]
  by (simp add: is_initialized_def is_disabled_def Sandbox_default_def example_policy_def
      refusing_address_space_def is_multiple_of_def kNullAddress_def base_def end'_def
      size'_def reservation_size_def)

text \<open>
  Claim C5. \<^verbatim>\<open>end()\<close> equals \<^verbatim>\<open>base() + size()\<close> in every state the sandbox reaches: in
  the default-constructed state, where all three are zero; after each of the three
  initialising functions has returned true, whatever the state before; after
  \<^verbatim>\<open>TearDown\<close>; and so after every run of calls from the default-constructed state that
  violates no precondition.
\<close>

theorem end_equals_base_plus_size:
  "end' Sandbox_default = base Sandbox_default + size' Sandbox_default
   \<and> (Initialize pol vas s = Inr (True, s1) \<longrightarrow> end' s1 = base s1 + size' s1)
   \<and> (Initialize_with_size pol vas sz use_guard_regions s = Inr (True, s2) \<longrightarrow>
        end' s2 = base s2 + size' s2)
   \<and> (InitializeAsPartiallyReservedSandbox pol vas sz size_to_reserve s = Inr (True, s3) \<longrightarrow>
        end' s3 = base s3 + size' s3)
   \<and> end' (TearDown s) = base (TearDown s) + size' (TearDown s)
   \<and> (calls pol cs Sandbox_default = Inr s4 \<longrightarrow> end' s4 = base s4 + size' s4)"
proof -
  have fresh: "end_m Sandbox_default = base_m Sandbox_default + size_m Sandbox_default"
    by (simp add: Sandbox_default_def kNullAddress_def)
  have full: "Initialize pol vas s = Inr (True, s1) \<longrightarrow> end' s1 = base s1 + size' s1"
    using Initialize_Inr [of pol vas s True s1]
    by (simp add: initialize_outcome_def end'_def base_def size'_def)
  have sized: "Initialize_with_size pol vas sz use_guard_regions s = Inr (True, s2) \<longrightarrow>
        end' s2 = base s2 + size' s2"
    using Initialize_with_size_Inr [of pol vas sz use_guard_regions s True s2]
    by (simp add: initialize_outcome_def end'_def base_def size'_def)
  have partial: "InitializeAsPartiallyReservedSandbox pol vas sz size_to_reserve s = Inr (True, s3)
        \<longrightarrow> end' s3 = base s3 + size' s3"
    using InitializeAsPartiallyReservedSandbox_Inr [of pol vas sz size_to_reserve s True s3]
    by (simp add: initialize_outcome_def end'_def base_def size'_def)
  have torn: "end' (TearDown s) = base (TearDown s) + size' (TearDown s)"
    by (simp add: TearDown_def kNullAddress_def end'_def base_def size'_def)
  have reach: "calls pol cs Sandbox_default = Inr s4 \<longrightarrow> end' s4 = base s4 + size' s4"
    using calls_preserve_geometry [of pol cs Sandbox_default s4] fresh
    by (simp add: end'_def base_def size'_def)
  from fresh full sized partial torn reach show ?thesis
    by (simp add: end'_def base_def size'_def)
qed

theorem end_equals_base_plus_size_witness:
  "Initialize example_policy granting_address_space Sandbox_default = Inr (True, example_sandbox)
   \<and> Initialize_with_size example_policy granting_address_space 0x10000000000 True Sandbox_default
       = Inr (True, example_sandbox)
   \<and> end' example_sandbox = base example_sandbox + size' example_sandbox
   \<and> InitializeAsPartiallyReservedSandbox example_policy fragmented_address_space
       0x10000000000 0x200000000 Sandbox_default = Inr (True, example_partial_sandbox)
   \<and> end' example_partial_sandbox = base example_partial_sandbox + size' example_partial_sandbox
   \<and> calls example_policy
       [Call_Initialize fragmented_address_space, Call_TearDown,
        Call_Initialize granting_address_space] Sandbox_default = Inr example_sandbox"
proof -
  note full = end_equals_base_plus_size
    [where pol = example_policy and vas = granting_address_space and s = Sandbox_default
       and ?s1.0 = example_sandbox and sz = "0x10000000000" and use_guard_regions = True
       and ?s2.0 = example_sandbox and ?s4.0 = example_sandbox
       and cs = "[Call_Initialize fragmented_address_space, Call_TearDown,
                  Call_Initialize granting_address_space]"]
  note partial = end_equals_base_plus_size
    [where pol = example_policy and vas = fragmented_address_space and s = Sandbox_default
       and sz = "0x10000000000" and size_to_reserve = "0x200000000"
       and ?s3.0 = example_partial_sandbox]
  have "end' example_sandbox = base example_sandbox + size' example_sandbox"
    using full Initialize_granting by blast
  moreover have "end' example_partial_sandbox
                   = base example_partial_sandbox + size' example_partial_sandbox"
    using partial InitializeAsPartiallyReservedSandbox_fragmented by blast
  ultimately show ?thesis
    using Initialize_granting Initialize_with_size_granting
      InitializeAsPartiallyReservedSandbox_fragmented calls_example
    by blast
qed

text \<open>
  Claim C4. \<^verbatim>\<open>Disable()\<close> requires a sandbox that is not initialised. On such a sandbox
  it succeeds and sets the disabled flag, after which \<^verbatim>\<open>is_disabled()\<close> is true and
  \<^verbatim>\<open>is_enabled()\<close> is false; they stay so through every later run of calls that
  violates no precondition. On an initialised sandbox, and so after \<^verbatim>\<open>Initialize()\<close>
  has returned true, \<^verbatim>\<open>Disable()\<close> fails its check at once and yields no state.
\<close>

theorem Disable_precondition:
  "(\<not> is_initialized s \<longrightarrow>
      (\<exists>s'. Disable s = Inr s' \<and> is_disabled s' \<and> \<not> is_enabled s'))
   \<and> (is_initialized s \<longrightarrow> Disable s = Inl CHECK_failed)
   \<and> (Initialize pol vas s0 = Inr (True, s1) \<longrightarrow>
        is_initialized s1 \<and> Disable s1 = Inl CHECK_failed)
   \<and> (is_disabled s \<and> calls pol cs s = Inr s2 \<longrightarrow> is_disabled s2 \<and> \<not> is_enabled s2)"
proof -
  have ok: "\<not> is_initialized s \<longrightarrow>
      (\<exists>s'. Disable s = Inr s' \<and> is_disabled s' \<and> \<not> is_enabled s')"
    by (simp add: Disable_uninitialized is_initialized_def is_disabled_def is_enabled_def)
  have refused: "is_initialized s \<longrightarrow> Disable s = Inl CHECK_failed"
    by (simp add: Disable_initialized is_initialized_def)
  have after: "Initialize pol vas s0 = Inr (True, s1) \<longrightarrow>
        is_initialized s1 \<and> Disable s1 = Inl CHECK_failed"
    using Initialize_Inr [of pol vas s0 True s1]
    by (simp add: initialize_outcome_def Disable_initialized is_initialized_def)
  have stays: "is_disabled s \<and> calls pol cs s = Inr s2 \<longrightarrow> is_disabled s2 \<and> \<not> is_enabled s2"
    using calls_keep_disabled [of pol cs s s2]
    by (simp add: is_disabled_def is_enabled_def)
  from ok refused after stays show ?thesis
    by blast
qed

theorem Disable_precondition_witness:
  "\<not> is_initialized Sandbox_default
   \<and> Disable Sandbox_default = Inr (Sandbox_default\<lparr>disabled_m := True\<rparr>)
   \<and> is_disabled (Sandbox_default\<lparr>disabled_m := True\<rparr>)
   \<and> \<not> is_enabled (Sandbox_default\<lparr>disabled_m := True\<rparr>)
   \<and> Initialize example_policy granting_address_space Sandbox_default
        = Inr (True, example_sandbox)
   \<and> is_initialized example_sandbox
   \<and> Disable example_sandbox = Inl CHECK_failed
   \<and> calls example_policy [Call_Disable, Call_TearDown] (Sandbox_default\<lparr>disabled_m := True\<rparr>)
        = Inr (Sandbox_default\<lparr>disabled_m := True\<rparr>)"
proof -
  let ?d = "Sandbox_default\<lparr>disabled_m := True\<rparr>"
  have fresh: "\<not> is_initialized Sandbox_default"
    by (simp add: is_initialized_def Sandbox_default_def)
  have disabled: "Disable Sandbox_default = Inr ?d"
    by (simp add: Disable_def CHECK_def Sandbox_default_def)
  have run: "calls example_policy [Call_Disable, Call_TearDown] ?d = Inr ?d"
    by (simp add: Disable_def CHECK_def TearDown_def Reset_def Sandbox_default_def
        SandboxedPointerConstants_default_def kNullAddress_def)
  have flag: "is_disabled ?d"
    by (simp add: is_disabled_def)
  have "\<not> is_enabled ?d"
    using Disable_precondition [where s = ?d and pol = example_policy
        and cs = "[Call_Disable, Call_TearDown]" and ?s2.0 = ?d] flag run
    by blast
  moreover have "is_initialized example_sandbox \<and> Disable example_sandbox = Inl CHECK_failed"
    using Disable_precondition [where pol = example_policy and vas = granting_address_space
        and ?s0.0 = Sandbox_default and ?s1.0 = example_sandbox] Initialize_granting
    by blast
  ultimately show ?thesis
    using fresh disabled flag run Initialize_granting by blast
qed

section \<open>Bounds checking of a sandbox in use\<close>





end
